theory Spec2Isabelle
  imports Main "HOL-Library.Sublist"
begin

section \<open>File names: \<open>sanitize_filename\<close>\<close>

text \<open>
  A Python \<open>str\<close> is modelled as a \<open>string\<close>, one \<open>char\<close> per character, so that
  \<open>length\<close> is Python's \<open>len\<close>.

  The character class of the regular expression \<^verbatim>\<open>[<>:"/\\|?*]\<close> at line 166.
\<close>

definition illegal_chars :: "char list" where
  "illegal_chars =
     [CHR ''<'', CHR ''>'', CHR '':'', CHR 0x22, CHR ''/'', CHR 0x5C, CHR ''|'', CHR ''?'', CHR ''*'']"

text \<open>\<^verbatim>\<open>re.sub(r'[<>:"/\\|?*]', '_', filename)\<close>: every match is one character.\<close>

definition re_sub_illegal :: "string \<Rightarrow> string" where
  "re_sub_illegal filename = map (\<lambda>c. if c \<in> set illegal_chars then CHR ''_'' else c) filename"

text \<open>\<^verbatim>\<open>str.strip(chars)\<close> removes the characters of \<open>chars\<close> from both ends.\<close>

definition py_strip :: "char list \<Rightarrow> string \<Rightarrow> string" where
  "py_strip chars s =
     rev (dropWhile (\<lambda>c. c \<in> set chars) (rev (dropWhile (\<lambda>c. c \<in> set chars) s)))"

text \<open>\<^verbatim>\<open>str.rfind(c)\<close>: the highest index of \<open>c\<close>, or \<open>-1\<close>.\<close>

fun rfind_from :: "string \<Rightarrow> char \<Rightarrow> int \<Rightarrow> int \<Rightarrow> int" where
  "rfind_from [] c i found = found"
| "rfind_from (x # xs) c i found = rfind_from xs c (i + 1) (if x = c then i else found)"

definition rfind :: "string \<Rightarrow> char \<Rightarrow> int" where
  "rfind p c = rfind_from p c 0 (- 1)"

text \<open>
  \<^verbatim>\<open>os.path.splitext\<close> of the standard library (\<open>genericpath._splitext\<close> with
  \<open>sep = '/'\<close>, no \<open>altsep\<close>, \<open>extsep = '.'\<close>). Its loop skips the leading dots of the
  last component and splits at the last dot as soon as it meets another character:
  \<^verbatim>\<open>
    while filenameIndex < dotIndex:
        if p[filenameIndex:filenameIndex+1] != extsep:
            return p[:dotIndex], p[dotIndex:]
        filenameIndex += 1
    return p, p[:0]
  \<close>
\<close>

function splitext_loop :: "string \<Rightarrow> nat \<Rightarrow> nat \<Rightarrow> string \<times> string" where
  "splitext_loop p filenameIndex dotIndex =
     (if filenameIndex < dotIndex then
        (if take 1 (drop filenameIndex p) \<noteq> ''.'' then (take dotIndex p, drop dotIndex p)
         else splitext_loop p (filenameIndex + 1) dotIndex)
      else (p, []))"
  by pat_completeness auto
termination
  by (relation "measure (\<lambda>(p, filenameIndex, dotIndex). dotIndex - filenameIndex)") auto

declare splitext_loop.simps [simp del]

definition splitext :: "string \<Rightarrow> string \<times> string" where
  "splitext p =
     (let sepIndex = rfind p (CHR ''/'');
          dotIndex = rfind p (CHR ''.'')
      in if dotIndex > sepIndex then splitext_loop p (nat (sepIndex + 1)) (nat dotIndex)
         else (p, []))"

text \<open>The slice \<^verbatim>\<open>s[:k]\<close>: a negative \<open>k\<close> counts from the end.\<close>

definition py_slice_to :: "string \<Rightarrow> int \<Rightarrow> string" where
  "py_slice_to s k = (if 0 \<le> k then take (nat k) s else take (nat (int (length s) + k)) s)"

text \<open>\<open>sanitize_filename\<close>, lines 155 to 173.\<close>

definition truncate_name :: "string \<Rightarrow> string" where
  "truncate_name sanitized =
     (if length sanitized > 255 then
        (case splitext sanitized of
           (name, ext) \<Rightarrow> py_slice_to name (255 - int (length ext)) @ ext)
      else sanitized)"

definition sanitize_filename :: "string \<Rightarrow> string" where
  "sanitize_filename filename =
     (let sanitized = re_sub_illegal filename;
          sanitized = py_strip ''. '' sanitized;
          sanitized = truncate_name sanitized
      in if sanitized \<noteq> [] then sanitized else ''unnamed_file'')"

section \<open>The flattening block: \<open>process_item\<close>\<close>

text \<open>
  The items of a file listing are dictionaries. The block reads three keys of an item:
  \<^verbatim>\<open>item.get('type')\<close>, which is compared with \<^verbatim>\<open>'file'\<close> and \<^verbatim>\<open>'folder'\<close>,
  and \<^verbatim>\<open>'children'\<close> and \<^verbatim>\<open>'files'\<close>, which are tested for presence and then
  iterated. A \<open>FileNode\<close> is such a dictionary: the type is a string when present, and
  \<open>children\<close> and \<open>files\<close> are lists of items when present.
\<close>

datatype FileNode =
  FileNode (node_id: string) (node_name: string) (node_type: "string option")
    (children: "FileNode list option") (files: "FileNode list option")

lemma size_children: "children item = Some cs \<Longrightarrow> c \<in> set cs \<Longrightarrow> size c < size item"
  by (cases item)
    (auto simp: less_Suc_eq_le
      dest!: size_list_estimation' [where f = size and y = "size c", OF _ order_refl])

lemma size_files: "files item = Some cs \<Longrightarrow> c \<in> set cs \<Longrightarrow> size c < size item"
  by (cases item)
    (auto simp: less_Suc_eq_le
      dest!: size_list_estimation' [where f = size and y = "size c", OF _ order_refl])

text \<open>
  Lines 261 to 277. In the source the header of this function is missing: its docstring
  and body follow the \<^verbatim>\<open>try\<close> statement of \<open>download_file\<close>, every branch of which
  returns. The block is modelled as the function of \<open>files_data\<close> that its docstring
  describes. \<open>process_item\<close> appends to the list \<open>flat_files\<close> of the enclosing scope,
  which is passed and returned here.
  \<^verbatim>\<open>
    flat_files = []
    def process_item(item):
        if item.get('type') == 'file':
            flat_files.append(item)
        elif item.get('type') == 'folder' and 'children' in item:
            for child in item['children']:
                process_item(child)
        elif 'files' in item:
            for file_item in item['files']:
                process_item(file_item)
    for item in files_data:
        process_item(item)
    return flat_files
  \<close>
\<close>

function process_item :: "FileNode \<Rightarrow> FileNode list \<Rightarrow> FileNode list" where
  "process_item item flat_files =
     (if node_type item = Some ''file'' then flat_files @ [item]
      else if node_type item = Some ''folder'' \<and> children item \<noteq> None
        then fold process_item (the (children item)) flat_files
      else if files item \<noteq> None
        then fold process_item (the (files item)) flat_files
      else flat_files)"
  by pat_completeness auto
termination
  by (relation "measure (\<lambda>(item, flat_files). size item)")
    (auto intro: size_children size_files)

declare process_item.simps [simp del]

definition flat_files :: "FileNode list \<Rightarrow> FileNode list" where
  "flat_files files_data = fold process_item files_data []"

subsection \<open>The tree of the data model\<close>









section \<open>Exceptions and JSON values\<close>

text \<open>
  The subclasses of \<open>Exception\<close> that the handlers of the source tell apart:
  \<open>requests.exceptions.RequestException\<close> (with its subclasses \<open>ConnectionError\<close>,
  \<open>Timeout\<close>, \<open>HTTPError\<close>, \<open>ChunkedEncodingError\<close>) and every other exception. Each
  carries the text that \<^verbatim>\<open>str(e)\<close> yields.
\<close>

datatype py_exception =
    RequestException string
  | AttributeError string
  | TypeError string
  | OSError string
  | OtherException string

fun exception_str :: "py_exception \<Rightarrow> string" where
  "exception_str (RequestException m) = m"
| "exception_str (AttributeError m) = m"
| "exception_str (TypeError m) = m"
| "exception_str (OSError m) = m"
| "exception_str (OtherException m) = m"

fun is_request_exception :: "py_exception \<Rightarrow> bool" where
  "is_request_exception (RequestException m) = True"
| "is_request_exception e = False"

text \<open>
  What \<^verbatim>\<open>response.json()\<close> returns: \<open>None\<close>, booleans, integers, strings, lists and
  dictionaries (numbers with a fraction are left out). A dictionary is the list of its
  items in order; a lookup takes the first item of a key.
\<close>

datatype json =
    JNull
  | JBool bool
  | JInt int
  | JStr string
  | JList "json list"
  | JDict "(string \<times> json) list"

text \<open>The truth value of \<^verbatim>\<open>if x\<close> and \<^verbatim>\<open>not x\<close>.\<close>

fun truthy :: "json \<Rightarrow> bool" where
  "truthy JNull = False"
| "truthy (JBool b) = b"
| "truthy (JInt i) = (i \<noteq> 0)"
| "truthy (JStr s) = (s \<noteq> [])"
| "truthy (JList xs) = (xs \<noteq> [])"
| "truthy (JDict kvs) = (kvs \<noteq> [])"

text \<open>\<^verbatim>\<open>len(x)\<close> raises \<open>TypeError\<close> on a value without a length.\<close>

fun py_len :: "json \<Rightarrow> py_exception + nat" where
  "py_len (JStr s) = Inr (length s)"
| "py_len (JList xs) = Inr (length xs)"
| "py_len (JDict kvs) = Inr (length kvs)"
| "py_len v = Inl (TypeError ''object has no len()'')"

text \<open>
  The values a \<^verbatim>\<open>for\<close> loop visits: the elements of a list, the keys of a
  dictionary, the characters of a string; \<open>TypeError\<close> otherwise.
\<close>

fun py_iter :: "json \<Rightarrow> py_exception + json list" where
  "py_iter (JList xs) = Inr xs"
| "py_iter (JDict kvs) = Inr (map (\<lambda>kv. JStr (fst kv)) kvs)"
| "py_iter (JStr s) = Inr (map (\<lambda>c. JStr [c]) s)"
| "py_iter v = Inl (TypeError ''object is not iterable'')"

text \<open>\<^verbatim>\<open>d.get(key, default)\<close> on a dictionary.\<close>

definition dict_get :: "(string \<times> json) list \<Rightarrow> string \<Rightarrow> json \<Rightarrow> json" where
  "dict_get kvs key dflt = (case map_of kvs key of Some v \<Rightarrow> v | None \<Rightarrow> dflt)"

text \<open>\<^verbatim>\<open>x.get(key, default)\<close>: only a dictionary has the method.\<close>

fun py_get :: "json \<Rightarrow> string \<Rightarrow> json \<Rightarrow> py_exception + json" where
  "py_get (JDict kvs) key dflt = Inr (dict_get kvs key dflt)"
| "py_get v key dflt = Inl (AttributeError ''object has no attribute get'')"

section \<open>The network and the file system\<close>

text \<open>
  A request is identified by what the source interpolates into its URL:
  \<^verbatim>\<open>{base_url}/projects\<close>, \<^verbatim>\<open>{base_url}/projects/{project_id}/files\<close>, and the
  download URL of a file.
\<close>

datatype request =
    GetProjects
  | GetProjectFiles json
  | Download string

text \<open>
  The body of a streamed response, as \<^verbatim>\<open>iter_content\<close> yields it: chunks of bytes,
  until the end or until the iterator raises.
\<close>

datatype chunk_event =
    Chunk "nat list"
  | StreamError py_exception

record http_response =
  status_code :: nat
  json_body :: "py_exception + json"
  content :: "chunk_event list"

text \<open>\<^verbatim>\<open>raise_for_status\<close> raises \<open>HTTPError\<close> for the status codes 400 to 599.\<close>

definition raise_for_status :: "http_response \<Rightarrow> py_exception option" where
  "raise_for_status response =
     (if 400 \<le> status_code response \<and> status_code response < 600
      then Some (RequestException ''HTTPError'') else None)"

text \<open>
  The file system maps a path, the list of its components, to a directory or to a
  regular file with its bytes.
\<close>

type_synonym path = "string list"

datatype fs_node = Dir | File "nat list"

type_synonym filesystem = "path \<Rightarrow> fs_node option"

definition is_file :: "filesystem \<Rightarrow> path \<Rightarrow> bool" where
  "is_file fs p = (case fs p of Some (File bs) \<Rightarrow> True | _ \<Rightarrow> False)"

text \<open>\<^verbatim>\<open>Path.exists()\<close>.\<close>

definition path_exists :: "filesystem \<Rightarrow> path \<Rightarrow> bool" where
  "path_exists fs p = (fs p \<noteq> None)"

text \<open>\<^verbatim>\<open>Path.parent\<close>; the parent of the root is the root.\<close>

definition parent :: "path \<Rightarrow> path" where
  "parent p = butlast p"

text \<open>
  \<^verbatim>\<open>Path.mkdir(parents=True, exist_ok=True)\<close>: raises when the path or one of its
  ancestors is a regular file, and otherwise creates the directories that are missing.
\<close>

definition mkdir_parents :: "path \<Rightarrow> filesystem \<Rightarrow> py_exception + filesystem" where
  "mkdir_parents p fs =
     (if list_ex (is_file fs) (prefixes p) then Inl (OSError ''[Errno 17] File exists'')
      else Inr (\<lambda>q. if prefix q p \<and> fs q = None then Some Dir else fs q))"

text \<open>
  \<^verbatim>\<open>open(file_path, 'wb')\<close> creates the file or truncates it; it raises on a
  directory and when the parent directory is missing.
\<close>

definition open_wb :: "path \<Rightarrow> filesystem \<Rightarrow> py_exception + filesystem" where
  "open_wb p fs =
     (if fs p = Some Dir then Inl (OSError ''[Errno 21] Is a directory'')
      else if fs (parent p) \<noteq> Some Dir then Inl (OSError ''[Errno 2] No such file or directory'')
      else Inr (fs(p \<mapsto> File [])))"

text \<open>\<^verbatim>\<open>Path.unlink()\<close> removes a regular file.\<close>

definition unlink :: "path \<Rightarrow> filesystem \<Rightarrow> py_exception + filesystem" where
  "unlink p fs =
     (case fs p of
        Some (File bs) \<Rightarrow> Inr (fs(p := None))
      | Some Dir \<Rightarrow> Inl (OSError ''[Errno 21] Is a directory'')
      | None \<Rightarrow> Inl (OSError ''[Errno 2] No such file or directory''))"

text \<open>
  The environment of a run: the server, the faults of the disk (\<open>write_fault env p n\<close>
  is the exception that \<^verbatim>\<open>f.write\<close> raises on the file \<open>p\<close> that holds \<open>n\<close> bytes,
  a full disk for instance), the size that \<^verbatim>\<open>stat\<close> reports for a directory, and
  the attribute \<open>backup_location\<close> of the client.
\<close>

record env =
  http_get :: "request \<Rightarrow> py_exception + http_response"
  write_fault :: "path \<Rightarrow> nat \<Rightarrow> py_exception option"
  dir_st_size :: nat
  backup_location :: path

text \<open>\<^verbatim>\<open>file_path.stat().st_size\<close> of an existing path.\<close>

definition st_size :: "env \<Rightarrow> filesystem \<Rightarrow> path \<Rightarrow> nat" where
  "st_size e fs p = (case fs p of Some (File bs) \<Rightarrow> length bs | _ \<Rightarrow> dir_st_size e)"

section \<open>The client and its counters\<close>

text \<open>The dictionary \<open>self.stats\<close>, lines 52 to 59.\<close>

record stats =
  projects_processed :: nat
  files_found :: nat
  files_downloaded :: nat
  files_skipped :: nat
  download_errors :: nat
  total_bytes_downloaded :: nat

text \<open>
  What a run changes: the counters, the disk, and the requests sent so far (kept to
  count network calls).
\<close>

record state =
  stats :: stats
  disk :: filesystem
  requests :: "request list"

definition initial_stats :: stats where
  "initial_stats =
     \<lparr>projects_processed = 0, files_found = 0, files_downloaded = 0, files_skipped = 0,
      download_errors = 0, total_bytes_downloaded = 0\<rparr>"

text \<open>
  \<open>__init__\<close>, lines 30 to 59: creates the backup directory and sets the counters to
  zero. Nothing catches an exception of \<open>mkdir\<close> here.
\<close>

definition init :: "env \<Rightarrow> filesystem \<Rightarrow> py_exception + state" where
  "init e fs =
     (case mkdir_parents (backup_location e) fs of
        Inl ex \<Rightarrow> Inl ex
      | Inr fs' \<Rightarrow> Inr \<lparr>stats = initial_stats, disk = fs', requests = []\<rparr>)"

section \<open>\<open>download_file\<close>\<close>

text \<open>
  The loop of lines 222 to 225 over the chunks of the response. An empty chunk is not
  written. The result is the exception that ends the loop, or \<open>total_size\<close>.
  \<^verbatim>\<open>
    for chunk in download_response.iter_content(chunk_size=8192):
        if chunk:
            f.write(chunk)
            total_size += len(chunk)
  \<close>
\<close>

fun write_chunks ::
  "env \<Rightarrow> path \<Rightarrow> chunk_event list \<Rightarrow> nat \<Rightarrow> nat list \<Rightarrow> (py_exception + nat) \<times> nat list"
where
  "write_chunks e p [] total_size written = (Inr total_size, written)"
| "write_chunks e p (StreamError ex # rest) total_size written = (Inl ex, written)"
| "write_chunks e p (Chunk chunk # rest) total_size written =
     (if chunk = [] then write_chunks e p rest total_size written
      else case write_fault e p (length written) of
          Some ex \<Rightarrow> (Inl ex, written)
        | None \<Rightarrow> write_chunks e p rest (total_size + length chunk) (written @ chunk))"

text \<open>
  The body of the \<^verbatim>\<open>try\<close> statement, lines 203 to 234: the exception it raises, or
  the value it returns, with the state as it is at that point. The file holds the bytes
  written before an exception, since leaving the \<^verbatim>\<open>with\<close> block closes it.
\<close>

definition download_file_try ::
  "env \<Rightarrow> string \<Rightarrow> path \<Rightarrow> state \<Rightarrow> (py_exception + bool) \<times> state"
where
  "download_file_try e download_url file_path s =
     (case mkdir_parents (parent file_path) (disk s) of
        Inl ex \<Rightarrow> (Inl ex, s)
      | Inr fs1 \<Rightarrow>
          let s1 = s\<lparr>disk := fs1\<rparr> in
          if path_exists fs1 file_path \<and> st_size e fs1 file_path > 0 then
            (Inr True, s1\<lparr>stats := (stats s1)\<lparr>files_skipped := files_skipped (stats s1) + 1\<rparr>\<rparr>)
          else
            let s2 = s1\<lparr>requests := requests s1 @ [Download download_url]\<rparr> in
            case http_get e (Download download_url) of
              Inl ex \<Rightarrow> (Inl ex, s2)
            | Inr download_response \<Rightarrow>
                (case raise_for_status download_response of
                   Some ex \<Rightarrow> (Inl ex, s2)
                 | None \<Rightarrow>
                     (case open_wb file_path (disk s2) of
                        Inl ex \<Rightarrow> (Inl ex, s2)
                      | Inr fs2 \<Rightarrow>
                          (case write_chunks e file_path (content download_response) 0 [] of
                             (Inl ex, written) \<Rightarrow>
                               (Inl ex, s2\<lparr>disk := fs2(file_path \<mapsto> File written)\<rparr>)
                           | (Inr total_size, written) \<Rightarrow>
                               (Inr True,
                                s2\<lparr>disk := fs2(file_path \<mapsto> File written),
                                   stats := (stats s2)
                                     \<lparr>files_downloaded := files_downloaded (stats s2) + 1,
                                      total_bytes_downloaded :=
                                        total_bytes_downloaded (stats s2) + total_size\<rparr>\<rparr>)))))"

text \<open>
  The cleanup of lines 241 to 245; the bare \<^verbatim>\<open>except: pass\<close> drops an exception of
  \<open>unlink\<close>.
\<close>

definition cleanup_partial :: "path \<Rightarrow> filesystem \<Rightarrow> filesystem" where
  "cleanup_partial file_path fs =
     (if path_exists fs file_path then
        (case unlink file_path fs of Inl ex \<Rightarrow> fs | Inr fs' \<Rightarrow> fs')
      else fs)"

text \<open>
  \<open>download_file\<close>, lines 190 to 251, with its two handlers: the one for
  \<open>RequestException\<close> counts the error and cleans up, the one for every other
  \<open>Exception\<close> counts the error only. \<open>file_name\<close> is used for logging only.
\<close>

definition download_file :: "env \<Rightarrow> string \<Rightarrow> path \<Rightarrow> string \<Rightarrow> state \<Rightarrow> bool \<times> state" where
  "download_file e download_url file_path file_name s =
     (case download_file_try e download_url file_path s of
        (Inr result, s') \<Rightarrow> (result, s')
      | (Inl ex, s') \<Rightarrow>
          let s'' = s'\<lparr>stats := (stats s')\<lparr>download_errors := download_errors (stats s') + 1\<rparr>\<rparr> in
          if is_request_exception ex
            then (False, s''\<lparr>disk := cleanup_partial file_path (disk s'')\<rparr>)
          else (False, s''))"

section \<open>The listing calls\<close>

text \<open>
  The three branches of lines 78 to 83 and 110 to 115: a list is returned, a dictionary
  with the key \<open>data\<close> yields the value of that key, anything else is returned as it
  is.
\<close>

fun response_structure :: "json \<Rightarrow> json" where
  "response_structure (JList xs) = JList xs"
| "response_structure (JDict kvs) =
     (case map_of kvs ''data'' of Some v \<Rightarrow> v | None \<Rightarrow> JDict kvs)"
| "response_structure v = v"

text \<open>
  \<open>get_projects\<close>, lines 61 to 89. The handler catches \<open>RequestException\<close> only and
  returns the empty list; another exception leaves the function.
\<close>

definition get_projects :: "env \<Rightarrow> state \<Rightarrow> (py_exception + json) \<times> state" where
  "get_projects e s =
     (let s1 = s\<lparr>requests := requests s @ [GetProjects]\<rparr>;
          try =
            (case http_get e GetProjects of
               Inl ex \<Rightarrow> Inl ex
             | Inr response \<Rightarrow>
                 (case raise_for_status response of
                    Some ex \<Rightarrow> Inl ex
                  | None \<Rightarrow>
                      (case json_body response of
                         Inl ex \<Rightarrow> Inl ex
                       | Inr projects_data \<Rightarrow> Inr (response_structure projects_data))))
      in case try of
           Inr result \<Rightarrow> (Inr result, s1)
         | Inl ex \<Rightarrow> if is_request_exception ex then (Inr (JList []), s1) else (Inl ex, s1))"

text \<open>\<open>get_project_files\<close>, lines 91 to 121, of the same shape.\<close>

definition get_project_files :: "env \<Rightarrow> json \<Rightarrow> state \<Rightarrow> (py_exception + json) \<times> state" where
  "get_project_files e project_id s =
     (let s1 = s\<lparr>requests := requests s @ [GetProjectFiles project_id]\<rparr>;
          try =
            (case http_get e (GetProjectFiles project_id) of
               Inl ex \<Rightarrow> Inl ex
             | Inr response \<Rightarrow>
                 (case raise_for_status response of
                    Some ex \<Rightarrow> Inl ex
                  | None \<Rightarrow>
                      (case json_body response of
                         Inl ex \<Rightarrow> Inl ex
                       | Inr files_data \<Rightarrow> Inr (response_structure files_data))))
      in case try of
           Inr result \<Rightarrow> (Inr result, s1)
         | Inl ex \<Rightarrow> if is_request_exception ex then (Inr (JList []), s1) else (Inl ex, s1))"

section \<open>The orchestrator: \<open>backup_all_projects\<close>\<close>

text \<open>
  \<open>create_project_directory\<close>, lines 175 to 188. \<^verbatim>\<open>re.sub\<close> raises \<open>TypeError\<close>
  on a name that is not a string. The sanitized name has no separator, so it is one
  component under \<open>backup_location\<close>.
\<close>

definition create_project_directory :: "env \<Rightarrow> json \<Rightarrow> state \<Rightarrow> (py_exception + path) \<times> state"
where
  "create_project_directory e project_name s =
     (case project_name of
        JStr name \<Rightarrow>
          (let sanitized_name = sanitize_filename name;
               project_dir = backup_location e @ [sanitized_name]
           in case mkdir_parents project_dir (disk s) of
                Inl ex \<Rightarrow> (Inl ex, s)
              | Inr fs \<Rightarrow> (Inr project_dir, s\<lparr>disk := fs\<rparr>))
      | _ \<Rightarrow> (Inl (TypeError ''expected string or bytes-like object''), s))"

text \<open>The dictionary \<open>project_info\<close>, lines 317 to 323.\<close>

record project_info =
  info_id :: json
  info_name :: json
  info_branch_id :: json
  info_files :: json
  info_status :: string

text \<open>
  The method \<open>process_files_structure\<close> that line 354 looks up on \<open>self\<close>, with the
  arguments \<open>project_files\<close>, \<open>project_dir\<close>, \<open>project_id\<close> and \<open>branch_id\<close>. It may
  change the state before it returns or raises.
\<close>

type_synonym process_files_structure =
  "json \<Rightarrow> path \<Rightarrow> json \<Rightarrow> json \<Rightarrow> state \<Rightarrow> (py_exception + json) \<times> state"

text \<open>
  The class statement of \<open>BildAPIClient\<close> binds \<open>__init__\<close>, \<open>get_projects\<close>,
  \<open>get_project_files\<close>, \<open>get_file_details\<close>, \<open>sanitize_filename\<close>,
  \<open>create_project_directory\<close>, \<open>download_file\<close>, \<open>backup_all_projects\<close>,
  \<open>display_backup_summary\<close> and \<open>save_backup_log\<close>. It binds no
  \<open>process_files_structure\<close>, and \<open>__init__\<close> sets no such attribute: the lookup
  raises \<open>AttributeError\<close>.
\<close>

definition BildAPIClient_process_files_structure :: "process_files_structure option" where
  "BildAPIClient_process_files_structure = None"

definition no_attribute :: py_exception where
  "no_attribute =
     AttributeError
       (CHR 0x27 # ''BildAPIClient' object has no attribute 'process_files_structure'' @ [CHR 0x27])"

text \<open>
  \<^verbatim>\<open>sum(1 for f in processed_files if f.get('download_successful', False))\<close>,
  line 362.
\<close>

fun count_successful :: "json list \<Rightarrow> py_exception + nat" where
  "count_successful [] = Inr 0"
| "count_successful (f # fs) =
     (case py_get f ''download_successful'' (JBool False) of
        Inl ex \<Rightarrow> Inl ex
      | Inr v \<Rightarrow>
          (case count_successful fs of
             Inl ex \<Rightarrow> Inl ex
           | Inr n \<Rightarrow> Inr (if truthy v then n + 1 else n)))"

text \<open>
  The body of the \<^verbatim>\<open>try\<close> statement of lines 353 to 363: the exception it raises,
  if any, with \<open>project_info\<close> and the state as they are at that point.
\<close>

definition process_files_try ::
  "process_files_structure option \<Rightarrow> json \<Rightarrow> path \<Rightarrow> json \<Rightarrow> json \<Rightarrow> project_info \<Rightarrow> state
     \<Rightarrow> py_exception option \<times> project_info \<times> state"
where
  "process_files_try attr project_files project_dir project_id branch_id project_info s =
     (case attr of
        None \<Rightarrow> (Some no_attribute, project_info, s)
      | Some process \<Rightarrow>
          (case process project_files project_dir project_id branch_id s of
             (Inl ex, s1) \<Rightarrow> (Some ex, project_info, s1)
           | (Inr processed_files, s1) \<Rightarrow>
               let project_info1 =
                     project_info\<lparr>info_files := processed_files, info_status := ''completed''\<rparr>;
                   s2 = s1\<lparr>stats := (stats s1)
                          \<lparr>projects_processed := projects_processed (stats s1) + 1\<rparr>\<rparr>
               in case py_iter processed_files of
                    Inl ex \<Rightarrow> (Some ex, project_info1, s2)
                  | Inr fs \<Rightarrow>
                      (case count_successful fs of
                         Inl ex \<Rightarrow> (Some ex, project_info1, s2)
                       | Inr successful \<Rightarrow>
                           (case py_len processed_files of
                              Inl ex \<Rightarrow> (Some ex, project_info1, s2)
                            | Inr n \<Rightarrow> (None, project_info1, s2)))))"

text \<open>
  The body of the loop over the projects, lines 309 to 372, for one \<open>project\<close>: the
  \<open>project_info\<close> appended to the summary, or the exception that leaves the loop.
  \<^verbatim>\<open>project.get\<close> at line 309 is outside every \<^verbatim>\<open>try\<close>, and so is the call
  of \<open>get_project_files\<close> at line 342. The pause and the output are left out.
\<close>

definition backup_project ::
  "process_files_structure option \<Rightarrow> env \<Rightarrow> json \<Rightarrow> state \<Rightarrow> (py_exception + project_info) \<times> state"
where
  "backup_project attr e project s =
     (case project of
        JDict kvs \<Rightarrow>
          (let project_id = dict_get kvs ''id'' (JStr []);
               project_name = dict_get kvs ''name'' (JStr ''Unknown Project'');
               default_branch = dict_get kvs ''defaultBranch'' (JDict []);
               branch_id =
                 (case default_branch of JDict b \<Rightarrow> dict_get b ''id'' (JStr []) | _ \<Rightarrow> JStr []);
               project_info =
                 \<lparr>info_id = project_id, info_name = project_name, info_branch_id = branch_id,
                  info_files = JList [], info_status = ''skipped''\<rparr>
           in if \<not> truthy project_id then
                (Inr (project_info\<lparr>info_status := ''error - no ID''\<rparr>), s)
              else
                (case create_project_directory e project_name s of
                   (Inl ex, s1) \<Rightarrow>
                     (Inr (project_info
                        \<lparr>info_status :=
                           ''error - directory creation failed: '' @ exception_str ex\<rparr>), s1)
                 | (Inr project_dir, s1) \<Rightarrow>
                     (case get_project_files e project_id s1 of
                        (Inl ex, s2) \<Rightarrow> (Inl ex, s2)
                      | (Inr project_files, s2) \<Rightarrow>
                          if \<not> truthy project_files then
                            (Inr (project_info\<lparr>info_status := ''no files''\<rparr>), s2)
                          else
                            (case process_files_try attr project_files project_dir project_id
                                    branch_id project_info s2 of
                               (None, project_info1, s3) \<Rightarrow> (Inr project_info1, s3)
                             | (Some ex, project_info1, s3) \<Rightarrow>
                                 (Inr (project_info1
                                    \<lparr>info_status := ''error - '' @ exception_str ex\<rparr>), s3)))))
      | _ \<Rightarrow> (Inl (AttributeError ''object has no attribute get''), s))"

text \<open>
  The loop of line 308: each \<open>project_info\<close> is appended to
  \<^verbatim>\<open>backup_summary['projects']\<close>; an exception of the body ends the loop.
\<close>

fun backup_loop ::
  "process_files_structure option \<Rightarrow> env \<Rightarrow> json list \<Rightarrow> project_info list \<Rightarrow> state
     \<Rightarrow> (py_exception + project_info list) \<times> state"
where
  "backup_loop attr e [] summary_projects s = (Inr summary_projects, s)"
| "backup_loop attr e (project # projects) summary_projects s =
     (case backup_project attr e project s of
        (Inl ex, s') \<Rightarrow> (Inl ex, s')
      | (Inr project_info, s') \<Rightarrow>
          backup_loop attr e projects (summary_projects @ [project_info]) s')"

text \<open>
  The dictionary \<open>backup_summary\<close>, lines 286 to 291, without its time stamp. The
  statistics are the empty dictionary until line 375 stores a copy of the counters.
\<close>

record backup_summary =
  summary_location :: path
  summary_projects :: "project_info list"
  summary_statistics :: "stats option"

text \<open>\<open>backup_all_projects\<close>, lines 279 to 376.\<close>

definition backup_all_projects ::
  "process_files_structure option \<Rightarrow> env \<Rightarrow> state \<Rightarrow> (py_exception + backup_summary) \<times> state"
where
  "backup_all_projects attr e s =
     (let backup_summary =
            \<lparr>summary_location = backup_location e, summary_projects = [],
             summary_statistics = None\<rparr>
      in case get_projects e s of
           (Inl ex, s1) \<Rightarrow> (Inl ex, s1)
         | (Inr projects, s1) \<Rightarrow>
             if \<not> truthy projects then (Inr backup_summary, s1)
             else
               (case py_len projects of
                  Inl ex \<Rightarrow> (Inl ex, s1)
                | Inr n \<Rightarrow>
                    (case py_iter projects of
                       Inl ex \<Rightarrow> (Inl ex, s1)
                     | Inr ps \<Rightarrow>
                         (case backup_loop attr e ps [] s1 of
                            (Inl ex, s2) \<Rightarrow> (Inl ex, s2)
                          | (Inr infos, s2) \<Rightarrow>
                              (Inr (backup_summary
                                 \<lparr>summary_projects := infos,
                                  summary_statistics := Some (stats s2)\<rparr>), s2)))))"

section \<open>Outcomes of the listing calls and the invariant of the counters\<close>

text \<open>
  A transport or HTTP failure of a listing call: \<^verbatim>\<open>session.get\<close> raises a
  \<open>RequestException\<close>, or the status makes \<^verbatim>\<open>raise_for_status\<close> raise.
\<close>

definition listing_fails :: "env \<Rightarrow> request \<Rightarrow> bool" where
  "listing_fails e r =
     (case http_get e r of
        Inl ex \<Rightarrow> is_request_exception ex
      | Inr response \<Rightarrow> raise_for_status response \<noteq> None)"

text \<open>
  Every exception of a listing call is one that its handler catches: the call returns.
\<close>

definition listing_caught :: "env \<Rightarrow> request \<Rightarrow> bool" where
  "listing_caught e r =
     (case http_get e r of
        Inl ex \<Rightarrow> is_request_exception ex
      | Inr response \<Rightarrow>
          raise_for_status response \<noteq> None
          \<or> (case json_body response of Inl ex \<Rightarrow> is_request_exception ex | Inr v \<Rightarrow> True))"

text \<open>
  The invariant of the counters in section 3 of the specification.
\<close>

definition stats_invariant :: "stats \<Rightarrow> bool" where
  "stats_invariant st =
     (files_downloaded st + files_skipped st + download_errors st \<le> files_found st)"

text \<open>The values that the loop body reads from a project dictionary, lines 309 to 323.\<close>

abbreviation project_id_of :: "(string \<times> json) list \<Rightarrow> json" where
  "project_id_of kvs \<equiv> dict_get kvs ''id'' (JStr [])"

abbreviation project_name_of :: "(string \<times> json) list \<Rightarrow> json" where
  "project_name_of kvs \<equiv> dict_get kvs ''name'' (JStr ''Unknown Project'')"

abbreviation branch_id_of :: "(string \<times> json) list \<Rightarrow> json" where
  "branch_id_of kvs \<equiv>
     (case dict_get kvs ''defaultBranch'' (JDict []) of
        JDict b \<Rightarrow> dict_get b ''id'' (JStr [])
      | _ \<Rightarrow> JStr [])"

abbreviation new_project_info :: "(string \<times> json) list \<Rightarrow> project_info" where
  "new_project_info kvs \<equiv>
     \<lparr>info_id = project_id_of kvs, info_name = project_name_of kvs,
      info_branch_id = branch_id_of kvs, info_files = JList [], info_status = ''skipped''\<rparr>"

section \<open>Servers, disks and runs used as examples\<close>

text \<open>
  A server is the function \<open>http_get\<close> of an environment. The client of the examples
  keeps its backup under \<open>backup\<close> and has a disk without faults unless one is given.
\<close>

definition no_faults :: "path \<Rightarrow> nat \<Rightarrow> py_exception option" where
  "no_faults p n = None"

definition ok_json :: "json \<Rightarrow> py_exception + http_response" where
  "ok_json v = Inr \<lparr>status_code = 200, json_body = Inr v, content = []\<rparr>"

definition ok_bytes :: "chunk_event list \<Rightarrow> py_exception + http_response" where
  "ok_bytes chunks =
     Inr \<lparr>status_code = 200, json_body = Inl (OtherException ''JSONDecodeError''),
          content = chunks\<rparr>"

definition status_only :: "nat \<Rightarrow> py_exception + http_response" where
  "status_only code = Inr \<lparr>status_code = code, json_body = Inr JNull, content = []\<rparr>"

definition client_env :: "(request \<Rightarrow> py_exception + http_response) \<Rightarrow> env" where
  "client_env server =
     \<lparr>http_get = server, write_fault = no_faults, dir_st_size = 4096,
      backup_location = [''backup'']\<rparr>"

definition fresh :: "filesystem \<Rightarrow> state" where
  "fresh fs = \<lparr>stats = initial_stats, disk = fs, requests = []\<rparr>"

definition scenario_server :: "request \<Rightarrow> py_exception + http_response" where
  "scenario_server r =
     (if r = GetProjects then
        ok_json (JList
          [JDict [(''id'', JStr ''p1''), (''name'', JStr ''Alpha''),
                  (''defaultBranch'', JDict [(''id'', JStr ''b1'')])],
           JDict [(''id'', JStr ''p2''), (''name'', JStr ''Beta''),
                  (''defaultBranch'', JDict [(''id'', JStr ''b2'')])]])
      else if r = GetProjectFiles (JStr ''p1'') then
        ok_json (JList
          [JDict [(''id'', JStr ''f1''), (''name'', JStr ''a.txt''), (''type'', JStr ''file'')],
           JDict [(''id'', JStr ''f2''), (''name'', JStr ''b.txt''), (''type'', JStr ''file'')],
           JDict [(''id'', JStr ''d1''), (''name'', JStr ''sub''), (''type'', JStr ''folder''),
                  (''children'', JList
                     [JDict [(''id'', JStr ''f3''), (''name'', JStr ''c.txt''),
                             (''type'', JStr ''file'')]])]])
      else if r = GetProjectFiles (JStr ''p2'') then ok_json (JList [])
      else ok_bytes [Chunk [1, 2, 3]])"

definition failing_server :: "request \<Rightarrow> py_exception + http_response" where
  "failing_server r =
     (if r = GetProjects then Inl (RequestException ''ConnectionError'') else status_only 500)"

definition dict_server :: "request \<Rightarrow> py_exception + http_response" where
  "dict_server r = ok_json (JDict [(''projects'', JList []), (''total'', JInt 0)])"

definition backup_disk :: filesystem where
  "backup_disk = [[] \<mapsto> Dir, [''backup''] \<mapsto> Dir]"


definition existing_disk :: filesystem where
  "existing_disk =
     backup_disk([''backup'', ''Alpha''] \<mapsto> Dir, [''backup'', ''Alpha'', ''a.txt''] \<mapsto> File [1, 2, 3])"

definition disk_full_at :: "nat \<Rightarrow> path \<Rightarrow> nat \<Rightarrow> py_exception option" where
  "disk_full_at limit p n =
     (if limit \<le> n then Some (OSError ''[Errno 28] No space left on device'') else None)"

definition download_server :: "chunk_event list \<Rightarrow> request \<Rightarrow> py_exception + http_response" where
  "download_server chunks r = ok_bytes chunks"

text \<open>
  A download whose disk is full after three bytes, and one whose stream breaks after
  three bytes.
\<close>

definition write_error_run :: "bool \<times> state" where
  "write_error_run =
     download_file
       ((client_env (download_server [Chunk [1, 2, 3], Chunk [4, 5]]))
          \<lparr>write_fault := disk_full_at 3\<rparr>)
       ''https://files/a'' [''backup'', ''Alpha'', ''a.txt''] ''a.txt'' (fresh backup_disk)"

definition stream_error_run :: "bool \<times> state" where
  "stream_error_run =
     download_file
       (client_env (download_server
          [Chunk [1, 2, 3], StreamError (RequestException ''ChunkedEncodingError'')]))
       ''https://files/a'' [''backup'', ''Alpha'', ''a.txt''] ''a.txt'' (fresh backup_disk)"

text \<open>
  A client fresh from \<open>__init__\<close> that calls \<open>download_file\<close> once: for a file that
  is on the disk already, and on an empty disk.
\<close>

definition skip_run :: "py_exception + bool \<times> state" where
  "skip_run =
     (case init (client_env scenario_server) existing_disk of
        Inl ex \<Rightarrow> Inl ex
      | Inr s \<Rightarrow>
          Inr (download_file (client_env scenario_server) ''https://files/a''
                 [''backup'', ''Alpha'', ''a.txt''] ''a.txt'' s))"

definition first_download_run :: "py_exception + bool \<times> state" where
  "first_download_run =
     (case init (client_env scenario_server) Map.empty of
        Inl ex \<Rightarrow> Inl ex
      | Inr s \<Rightarrow>
          Inr (download_file (client_env scenario_server) ''https://files/a''
                 [''backup'', ''Alpha'', ''a.txt''] ''a.txt'' s))"



section \<open>Properties of \<open>sanitize_filename\<close>\<close>

lemma re_sub_illegal_clean: "set (re_sub_illegal s) \<inter> set illegal_chars = {}"
  by (auto simp: re_sub_illegal_def illegal_chars_def)

lemma set_py_strip: "set (py_strip cs s) \<subseteq> set s"
  by (auto simp: py_strip_def dest!: set_dropWhileD)

lemma splitext_loop_append: "splitext_loop p i d = (name, ext) \<Longrightarrow> name @ ext = p"
proof (induction p i d rule: splitext_loop.induct)
  case (1 p i d)
  from "1.prems" show ?case
    by (subst (asm) splitext_loop.simps) (auto split: if_splits dest: "1.IH")
qed

lemma splitext_append: "splitext p = (name, ext) \<Longrightarrow> name @ ext = p"
  by (auto simp: splitext_def Let_def split: if_splits dest: splitext_loop_append)

lemma set_py_slice_to: "set (py_slice_to s k) \<subseteq> set s"
  by (auto simp: py_slice_to_def dest: in_set_takeD)

lemma set_truncate_name: "set (truncate_name s) \<subseteq> set s"
proof (cases "length s > 255")
  case True
  obtain name ext where sp: "splitext s = (name, ext)"
    by (cases "splitext s")
  then have "name @ ext = s"
    by (rule splitext_append)
  then have "set name \<union> set ext = set s"
    by (metis set_append)
  with sp True set_py_slice_to [of name "255 - int (length ext)"] show ?thesis
    by (auto simp: truncate_name_def)
next
  case False
  then show ?thesis by (simp add: truncate_name_def)
qed

lemma unnamed_file_clean: "set ''unnamed_file'' \<inter> set illegal_chars = {}"
  by (simp add: illegal_chars_def)

lemma sanitize_filename_clean: "set (sanitize_filename s) \<inter> set illegal_chars = {}"
proof -
  have "set (truncate_name (py_strip ''. '' (re_sub_illegal s))) \<subseteq> set (re_sub_illegal s)"
    using set_truncate_name set_py_strip by (rule subset_trans)
  with re_sub_illegal_clean [of s]
  have "set (truncate_name (py_strip ''. '' (re_sub_illegal s))) \<inter> set illegal_chars = {}"
    by blast
  with unnamed_file_clean show ?thesis
    by (cases "truncate_name (py_strip ''. '' (re_sub_illegal s)) = []")
      (simp_all add: sanitize_filename_def Let_def)
qed

lemma sanitize_filename_nonempty: "sanitize_filename s \<noteq> []"
  by (simp add: sanitize_filename_def Let_def)

text \<open>
  Claim C7. A name that contains characters of the illegal set
  \<^verbatim>\<open>< > : " / \ | ? *\<close> is sanitized to a name that contains none of them and is
  not empty.
\<close>

theorem sanitize_filename_illegal:
  assumes "set name \<inter> set illegal_chars \<noteq> {}"
  shows "set (sanitize_filename name) \<inter> set illegal_chars = {} \<and> sanitize_filename name \<noteq> []"
  using sanitize_filename_clean sanitize_filename_nonempty by simp

theorem sanitize_filename_illegal_witness:
  "set ''a<b>:c?.txt'' \<inter> set illegal_chars \<noteq> {}
   \<and> set (sanitize_filename ''a<b>:c?.txt'') \<inter> set illegal_chars = {}
   \<and> sanitize_filename ''a<b>:c?.txt'' \<noteq> []
   \<and> sanitize_filename ''a<b>:c?.txt'' = ''a_b__c_.txt''
   \<and> sanitize_filename ''???'' = ''___''
   \<and> sanitize_filename ''. .'' = ''unnamed_file''"
proof -
  have h: "set ''a<b>:c?.txt'' \<inter> set illegal_chars \<noteq> {}"
    by (simp add: illegal_chars_def)
  have e: "sanitize_filename ''a<b>:c?.txt'' = ''a_b__c_.txt''"
    "sanitize_filename ''???'' = ''___''" "sanitize_filename ''. .'' = ''unnamed_file''"
    by (simp_all add: sanitize_filename_def re_sub_illegal_def illegal_chars_def py_strip_def
        truncate_name_def)
  from sanitize_filename_illegal [OF h] h e show ?thesis
    by simp
qed

text \<open>
  Where the truncation of lines 170 to 172 keeps its bound: the extension that
  \<open>splitext\<close> finds has at most 255 characters.
\<close>

lemma py_slice_to_length: "0 \<le> k \<Longrightarrow> length (py_slice_to s k) \<le> nat k"
  by (simp add: py_slice_to_def)

lemma truncate_name_length:
  assumes "length (snd (splitext s)) \<le> 255"
  shows "length (truncate_name s) \<le> 255"
proof (cases "length s > 255")
  case True
  obtain name ext where sp: "splitext s = (name, ext)"
    by (cases "splitext s")
  with assms have "length ext \<le> 255" by simp
  then have "length (py_slice_to name (255 - int (length ext))) \<le> 255 - length ext"
    using py_slice_to_length [of "255 - int (length ext)" name] by simp
  with sp True \<open>length ext \<le> 255\<close> show ?thesis
    by (simp add: truncate_name_def)
next
  case False
  then show ?thesis by (simp add: truncate_name_def)
qed

lemma sanitize_filename_length:
  assumes "length (snd (splitext (py_strip ''. '' (re_sub_illegal name)))) \<le> 255"
  shows "length (sanitize_filename name) \<le> 255"
  using truncate_name_length [OF assms] by (simp add: sanitize_filename_def Let_def)

text \<open>
  Claim C6. A name of more than 255 characters is to be sanitized to at most 255
  characters, with its extension kept. The name \<^verbatim>\<open>'a.' + 'x' * 300\<close> has 302
  characters; its extension has 301, so that \<^verbatim>\<open>255 - len(ext)\<close> is negative, the
  slice \<^verbatim>\<open>name[:255-len(ext)]\<close> is empty, and the result is the extension alone, of
  301 characters.
\<close>

theorem sanitize_filename_long_extension:
  "length (''a.'' @ replicate 300 (CHR ''x'')) = 302
   \<and> sanitize_filename (''a.'' @ replicate 300 (CHR ''x'')) = ''.'' @ replicate 300 (CHR ''x'')
   \<and> length (sanitize_filename (''a.'' @ replicate 300 (CHR ''x''))) = 301"
  by code_simp

section \<open>Properties of the flattening block\<close>











section \<open>Properties of the listing calls\<close>

lemma raise_for_status_request: "raise_for_status r = Some ex \<Longrightarrow> is_request_exception ex"
  by (auto simp: raise_for_status_def split: if_splits)

lemma get_projects_fails:
  "listing_fails e GetProjects \<Longrightarrow>
     get_projects e s = (Inr (JList []), s\<lparr>requests := requests s @ [GetProjects]\<rparr>)"
  by (auto simp: listing_fails_def get_projects_def Let_def raise_for_status_def
      split: sum.splits option.splits if_splits)

lemma get_project_files_fails:
  "listing_fails e (GetProjectFiles project_id) \<Longrightarrow>
     get_project_files e project_id s =
       (Inr (JList []), s\<lparr>requests := requests s @ [GetProjectFiles project_id]\<rparr>)"
  by (auto simp: listing_fails_def get_project_files_def Let_def raise_for_status_def
      split: sum.splits option.splits if_splits)

text \<open>
  Claim C9. When the listing of the projects fails at the transport or with an HTTP
  error status, \<open>get_projects\<close> returns the empty list and the run returns its empty
  summary; when the listing of the files of a project fails so, \<open>get_project_files\<close>
  returns the empty list and the project is recorded with the status \<open>no files\<close>. In
  both cases no exception leaves the function.
\<close>

theorem listing_failure_not_fatal:
  "(listing_fails e GetProjects \<longrightarrow>
      fst (get_projects e s) = Inr (JList [])
      \<and> fst (backup_all_projects attr e s) =
          Inr \<lparr>summary_location = backup_location e, summary_projects = [],
               summary_statistics = None\<rparr>)
   \<and> (listing_fails e (GetProjectFiles project_id) \<longrightarrow>
      fst (get_project_files e project_id s) = Inr (JList [])
      \<and> (\<forall>kvs project_dir s1.
            dict_get kvs ''id'' (JStr []) = project_id \<and> truthy project_id
            \<and> create_project_directory e (dict_get kvs ''name'' (JStr ''Unknown Project'')) s
                = (Inr project_dir, s1)
            \<longrightarrow> (\<exists>project_info.
                  fst (backup_project attr e (JDict kvs) s) = Inr project_info
                  \<and> info_status project_info = ''no files'')))"
proof (intro conjI impI allI)
  assume f: "listing_fails e GetProjects"
  then show "fst (get_projects e s) = Inr (JList [])"
    by (simp add: get_projects_fails)
  from f show "fst (backup_all_projects attr e s) =
      Inr \<lparr>summary_location = backup_location e, summary_projects = [],
           summary_statistics = None\<rparr>"
    by (simp add: backup_all_projects_def get_projects_fails)
next
  assume f: "listing_fails e (GetProjectFiles project_id)"
  then show "fst (get_project_files e project_id s) = Inr (JList [])"
    by (simp add: get_project_files_fails)
  fix kvs project_dir s1
  assume "dict_get kvs ''id'' (JStr []) = project_id \<and> truthy project_id
      \<and> create_project_directory e (dict_get kvs ''name'' (JStr ''Unknown Project'')) s
          = (Inr project_dir, s1)"
  with f show "\<exists>project_info.
      fst (backup_project attr e (JDict kvs) s) = Inr project_info
      \<and> info_status project_info = ''no files''"
    by (simp add: backup_project_def Let_def get_project_files_fails)
qed

theorem listing_failure_not_fatal_witness:
  "listing_fails (client_env failing_server) GetProjects
   \<and> listing_fails (client_env failing_server) (GetProjectFiles (JStr ''p1''))
   \<and> fst (get_projects (client_env failing_server) (fresh backup_disk)) = Inr (JList [])
   \<and> fst (backup_all_projects None (client_env failing_server) (fresh backup_disk)) =
       Inr \<lparr>summary_location = [''backup''], summary_projects = [], summary_statistics = None\<rparr>
   \<and> fst (get_project_files (client_env failing_server) (JStr ''p1'') (fresh backup_disk)) =
       Inr (JList [])
   \<and> (\<exists>project_info.
        fst (backup_project None (client_env failing_server)
          (JDict [(''id'', JStr ''p1''), (''name'', JStr ''Alpha'')]) (fresh backup_disk)) =
          Inr project_info
        \<and> info_status project_info = ''no files'')"
proof -
  let ?e = "client_env failing_server"
  let ?kvs = "[(''id'', JStr ''p1''), (''name'', JStr ''Alpha'')]"
  have h1: "listing_fails ?e GetProjects"
    by (simp add: listing_fails_def client_env_def failing_server_def)
  have h2: "listing_fails ?e (GetProjectFiles (JStr ''p1''))"
    by (simp add: listing_fails_def client_env_def failing_server_def status_only_def
        raise_for_status_def)
  have h3: "dict_get ?kvs ''id'' (JStr []) = JStr ''p1'' \<and> truthy (JStr ''p1'')"
    by (simp add: dict_get_def)
  obtain project_dir s1 where h4:
    "create_project_directory ?e (dict_get ?kvs ''name'' (JStr ''Unknown Project''))
       (fresh backup_disk) = (Inr project_dir, s1)"
    by (simp add: create_project_directory_def dict_get_def Let_def mkdir_parents_def
        client_env_def fresh_def backup_disk_def is_file_def prefixes_snoc [symmetric])
  note t = listing_failure_not_fatal [of ?e "fresh backup_disk" None "JStr ''p1''"]
  from t h1 have a: "fst (get_projects ?e (fresh backup_disk)) = Inr (JList [])"
    "fst (backup_all_projects None ?e (fresh backup_disk)) =
       Inr \<lparr>summary_location = backup_location ?e, summary_projects = [],
            summary_statistics = None\<rparr>"
    by simp_all
  from t h2 have b: "fst (get_project_files ?e (JStr ''p1'') (fresh backup_disk)) = Inr (JList [])"
    by simp
  from t h2 h3 h4 have c: "\<exists>project_info.
      fst (backup_project None ?e (JDict ?kvs) (fresh backup_disk)) = Inr project_info
      \<and> info_status project_info = ''no files''"
    by blast
  from h1 h2 a b c show ?thesis
    by (simp add: client_env_def)
qed

text \<open>
  Claim C10. A successful response whose payload is a dictionary without the key
  \<open>data\<close> is returned by \<open>get_projects\<close> and by \<open>get_project_files\<close> as that
  dictionary, unchanged.
\<close>

theorem listing_returns_dict:
  assumes "map_of kvs ''data'' = None"
    and "raise_for_status response = None"
    and "json_body response = Inr (JDict kvs)"
  shows "(http_get e GetProjects = Inr response \<longrightarrow>
            fst (get_projects e s) = Inr (JDict kvs))
       \<and> (http_get e (GetProjectFiles project_id) = Inr response \<longrightarrow>
            fst (get_project_files e project_id s) = Inr (JDict kvs))"
  using assms by (simp add: get_projects_def get_project_files_def Let_def)

theorem listing_returns_dict_witness:
  "fst (get_projects (client_env dict_server) (fresh backup_disk)) =
     Inr (JDict [(''projects'', JList []), (''total'', JInt 0)])
   \<and> fst (get_project_files (client_env dict_server) (JStr ''p1'') (fresh backup_disk)) =
     Inr (JDict [(''projects'', JList []), (''total'', JInt 0)])"
proof -
  let ?kvs = "[(''projects'', JList []), (''total'', JInt 0)]"
  let ?r = "\<lparr>status_code = 200, json_body = Inr (JDict ?kvs), content = []\<rparr>"
  have h: "map_of ?kvs ''data'' = None" "raise_for_status ?r = None"
    "json_body ?r = Inr (JDict ?kvs)"
    by (simp_all add: raise_for_status_def)
  have g: "http_get (client_env dict_server) GetProjects = Inr ?r"
    "http_get (client_env dict_server) (GetProjectFiles (JStr ''p1'')) = Inr ?r"
    by (simp_all add: client_env_def dict_server_def ok_json_def)
  from listing_returns_dict [OF h, of "client_env dict_server" "fresh backup_disk" "JStr ''p1''"] g
  show ?thesis by simp
qed

text \<open>
  The loop of the orchestrator then visits the keys of that dictionary, which are
  strings: \<^verbatim>\<open>project.get\<close> raises \<open>AttributeError\<close> at line 309, outside every
  \<^verbatim>\<open>try\<close>, and the exception leaves \<open>backup_all_projects\<close>.
\<close>

lemma backup_all_projects_dict_payload:
  "fst (backup_all_projects attr (client_env dict_server) (fresh backup_disk)) =
     Inl (AttributeError ''object has no attribute get'')"
  by (simp add: backup_all_projects_def get_projects_def Let_def client_env_def dict_server_def
      ok_json_def raise_for_status_def backup_project_def)

section \<open>Properties of \<open>download_file\<close>\<close>









text \<open>
  What the two handlers leave at the destination: the handler for \<open>RequestException\<close>
  removes the file, the handler for the other exceptions leaves it.
\<close>

lemma download_file_request_failure:
  assumes "download_file_try e download_url file_path s = (Inl ex, s')"
    and "is_request_exception ex" and "disk s' file_path \<noteq> Some Dir"
  shows "download_file e download_url file_path file_name s =
     (False, s'\<lparr>stats := (stats s')\<lparr>download_errors := download_errors (stats s') + 1\<rparr>,
                disk := (disk s')(file_path := None)\<rparr>)"
proof (cases "disk s' file_path")
  case None
  then have "(disk s')(file_path := None) = disk s'" by auto
  with assms None show ?thesis
    by (simp add: download_file_def Let_def cleanup_partial_def path_exists_def)
next
  case (Some node)
  with assms(3) obtain bs where "node = File bs" by (cases node) auto
  with assms Some show ?thesis
    by (simp add: download_file_def Let_def cleanup_partial_def path_exists_def unlink_def)
qed

lemma download_file_other_failure:
  assumes "download_file_try e download_url file_path s = (Inl ex, s')"
    and "\<not> is_request_exception ex"
  shows "download_file e download_url file_path file_name s =
     (False, s'\<lparr>stats := (stats s')\<lparr>download_errors := download_errors (stats s') + 1\<rparr>\<rparr>)"
  using assms by (simp add: download_file_def Let_def)

text \<open>
  Claim C4. After a failed download no file is to remain at the destination. A download
  that fails in \<^verbatim>\<open>f.write\<close> with an \<open>OSError\<close>, the disk being full after three
  bytes, is handled at lines 248 to 251, where nothing removes the file: the call
  returns \<open>False\<close> and the three bytes stay. A download whose stream breaks after three
  bytes is handled at lines 236 to 247 and leaves no file.
\<close>

theorem download_file_write_error_keeps_partial_file:
  "fst write_error_run = False
   \<and> download_errors (stats (snd write_error_run)) = 1
   \<and> disk (snd write_error_run) [''backup'', ''Alpha'', ''a.txt''] = Some (File [1, 2, 3])
   \<and> fst stream_error_run = False
   \<and> download_errors (stats (snd stream_error_run)) = 1
   \<and> disk (snd stream_error_run) [''backup'', ''Alpha'', ''a.txt''] = None"
  by code_simp

lemma download_file_files_found:
  "files_found (stats (snd (download_file e download_url file_path file_name s))) =
     files_found (stats s)"
  by (auto simp: download_file_def download_file_try_def Let_def
      split: sum.splits option.splits prod.splits if_splits)

text \<open>
  Claim C2. The counters are to satisfy
  \<open>files_downloaded + files_skipped + download_errors \<le> files_found\<close> in every
  state. \<open>download_file\<close> adds to the three counters on the left and, as no statement of
  the source adds to \<open>files_found\<close>, the first call on a new client breaks the
  invariant: with a skip when the file is there, with a download when it is not.
\<close>

theorem download_file_breaks_stats_invariant:
  "stats_invariant initial_stats
   \<and> (case skip_run of
        Inl ex \<Rightarrow> False
      | Inr (result, s) \<Rightarrow>
          result \<and> files_skipped (stats s) = 1 \<and> files_found (stats s) = 0
          \<and> \<not> stats_invariant (stats s))
   \<and> (case first_download_run of
        Inl ex \<Rightarrow> False
      | Inr (result, s) \<Rightarrow>
          result \<and> files_downloaded (stats s) = 1 \<and> files_found (stats s) = 0
          \<and> \<not> stats_invariant (stats s))"
  by code_simp

section \<open>Properties of the orchestrator\<close>

text \<open>
  A run of the class as it is written changes no counter and creates no regular file.
\<close>

lemma mkdir_parents_is_file:
  "mkdir_parents p fs = Inr fs' \<Longrightarrow> is_file fs' q = is_file fs q"
  by (auto simp: mkdir_parents_def is_file_def split: if_splits option.splits fs_node.splits)

lemma create_project_directory_state:
  "create_project_directory e project_name s = (r, s') \<Longrightarrow>
     stats s' = stats s \<and> requests s' = requests s \<and> is_file (disk s') q = is_file (disk s) q"
  by (auto simp: create_project_directory_def Let_def mkdir_parents_is_file
      split: json.splits sum.splits)

lemma get_project_files_state:
  "get_project_files e project_id s = (r, s') \<Longrightarrow> stats s' = stats s \<and> disk s' = disk s"
  by (auto simp: get_project_files_def Let_def split: sum.splits option.splits if_splits)

lemma get_projects_state:
  "get_projects e s = (r, s') \<Longrightarrow> stats s' = stats s \<and> disk s' = disk s"
  by (auto simp: get_projects_def Let_def split: sum.splits option.splits if_splits)

lemma backup_project_no_method:
  assumes "backup_project None e project s = (r, s')"
  shows "stats s' = stats s \<and> is_file (disk s') q = is_file (disk s) q"
proof (cases project)
  case (JDict kvs)
  show ?thesis
  proof (cases "truthy (dict_get kvs ''id'' (JStr []))")
    case False
    with assms JDict show ?thesis
      by (simp add: backup_project_def Let_def)
  next
    case True
    obtain r1 s1 where c: "create_project_directory e (dict_get kvs ''name'' (JStr ''Unknown Project'')) s = (r1, s1)"
      by (cases "create_project_directory e (dict_get kvs ''name'' (JStr ''Unknown Project'')) s")
    note c1 = create_project_directory_state [OF c, of q]
    show ?thesis
    proof (cases r1)
      case (Inl ex)
      with assms JDict True c c1 show ?thesis
        by (simp add: backup_project_def Let_def)
    next
      case (Inr project_dir)
      obtain r2 s2 where g: "get_project_files e (dict_get kvs ''id'' (JStr [])) s1 = (r2, s2)"
        by (cases "get_project_files e (dict_get kvs ''id'' (JStr [])) s1")
      note g1 = get_project_files_state [OF g]
      from assms JDict True c c1 Inr g g1 show ?thesis
        by (auto simp: backup_project_def Let_def process_files_try_def split: sum.splits if_splits)
    qed
  qed
qed (use assms in \<open>simp_all add: backup_project_def\<close>)

lemma backup_loop_no_method:
  "backup_loop None e projects acc s = (r, s') \<Longrightarrow>
     stats s' = stats s \<and> is_file (disk s') q = is_file (disk s) q"
proof (induction projects arbitrary: acc s)
  case Nil
  then show ?case by simp
next
  case (Cons project projects)
  obtain r1 s1 where b: "backup_project None e project s = (r1, s1)"
    by (cases "backup_project None e project s")
  note b1 = backup_project_no_method [OF b, of q]
  show ?case
  proof (cases r1)
    case (Inl ex)
    with Cons.prems b b1 show ?thesis by simp
  next
    case (Inr project_info)
    with Cons.prems b have "backup_loop None e projects (acc @ [project_info]) s1 = (r, s')"
      by simp
    from Cons.IH [OF this] b1 show ?thesis by simp
  qed
qed

lemma backup_all_projects_no_method:
  assumes "backup_all_projects None e s = (r, s')"
  shows "stats s' = stats s \<and> is_file (disk s') q = is_file (disk s) q"
proof -
  obtain r1 s1 where g: "get_projects e s = (r1, s1)"
    by (cases "get_projects e s")
  note g1 = get_projects_state [OF g]
  show ?thesis
  proof (cases r1)
    case (Inl ex)
    with assms g g1 show ?thesis by (simp add: backup_all_projects_def)
  next
    case (Inr projects)
    show ?thesis
    proof (cases "truthy projects \<and> (\<exists>ps. py_iter projects = Inr ps)")
      case False
      with assms g g1 Inr show ?thesis
        by (auto simp: backup_all_projects_def Let_def split: sum.splits if_splits)
    next
      case True
      then obtain ps where ps: "py_iter projects = Inr ps" by blast
      obtain r2 s2 where l: "backup_loop None e ps [] s1 = (r2, s2)"
        by (cases "backup_loop None e ps [] s1")
      note l1 = backup_loop_no_method [OF l, of q]
      from assms g g1 Inr True ps l l1 show ?thesis
        by (auto simp: backup_all_projects_def Let_def split: sum.splits if_splits)
    qed
  qed
qed

text \<open>
  Claim C1. The server has two projects: \<open>Alpha\<close> with the files \<open>a.txt\<close>, \<open>b.txt\<close>
  and \<open>sub/c.txt\<close>, and \<open>Beta\<close> without files. The claim has the run end with
  \<open>files_found = 3\<close>, \<open>files_downloaded = 3\<close>, the statuses \<open>completed\<close> and
  \<open>no files\<close> and three files on the disk. The run of the class as it is written
  records the \<open>AttributeError\<close> of line 354 for \<open>Alpha\<close>, sends no download request,
  leaves every counter at zero and writes no file.
\<close>

theorem backup_all_projects_scenario:
  "(case init (client_env scenario_server) Map.empty of
      Inl ex \<Rightarrow> False
    | Inr s \<Rightarrow>
        (case backup_all_projects BildAPIClient_process_files_structure
                (client_env scenario_server) s of
           (Inl ex, s') \<Rightarrow> False
         | (Inr backup_summary, s') \<Rightarrow>
             map info_status (summary_projects backup_summary) =
               [''error - '' @ exception_str no_attribute, ''no files'']
             \<and> summary_statistics backup_summary = Some initial_stats
             \<and> files_found (stats s') = 0 \<and> files_downloaded (stats s') = 0
             \<and> requests s' =
                 [GetProjects, GetProjectFiles (JStr ''p1''), GetProjectFiles (JStr ''p2'')]
             \<and> disk s' [''backup'', ''Alpha''] = Some Dir
             \<and> disk s' [''backup'', ''Alpha'', ''a.txt''] = None
             \<and> disk s' [''backup'', ''Alpha'', ''b.txt''] = None
             \<and> disk s' [''backup'', ''Alpha'', ''sub'', ''c.txt''] = None))"
  by code_simp



text \<open>
  When every item of the listing is a dictionary and the listing calls raise nothing but
  what their handlers catch, the loop ends without an exception and with one entry for
  each project.
\<close>

lemma get_project_files_returns:
  "listing_caught e (GetProjectFiles project_id) \<Longrightarrow>
     \<exists>v. get_project_files e project_id s =
       (Inr v, s\<lparr>requests := requests s @ [GetProjectFiles project_id]\<rparr>)"
  by (auto simp: listing_caught_def get_project_files_def Let_def
      split: sum.splits option.splits dest: raise_for_status_request)

lemma backup_project_returns:
  assumes "\<forall>project_id. listing_caught e (GetProjectFiles project_id)"
  shows "\<exists>project_info s'. backup_project attr e (JDict kvs) s = (Inr project_info, s')
           \<and> info_id project_info = project_id_of kvs"
proof -
  obtain r1 s1 where c: "create_project_directory e (project_name_of kvs) s = (r1, s1)"
    by (cases "create_project_directory e (project_name_of kvs) s")
  from assms obtain v where g: "get_project_files e (project_id_of kvs) s1 =
      (Inr v, s1\<lparr>requests := requests s1 @ [GetProjectFiles (project_id_of kvs)]\<rparr>)"
    using get_project_files_returns by blast
  have i: "process_files_try attr v d (project_id_of kvs) b (new_project_info kvs) s2 = (x, p, s3)
      \<Longrightarrow> info_id p = project_id_of kvs" for d b s2 x p s3
    by (auto simp: process_files_try_def Let_def split: option.splits sum.splits prod.splits)
  from c g show ?thesis
    by (auto simp: backup_project_def Let_def split: sum.splits option.splits prod.splits dest: i)
qed

lemma backup_loop_returns:
  assumes "\<forall>project_id. listing_caught e (GetProjectFiles project_id)"
    and "\<forall>project \<in> set projects. \<exists>kvs. project = JDict kvs"
  shows "\<exists>infos s'. backup_loop attr e projects acc s = (Inr (acc @ infos), s')
           \<and> length infos = length projects"
  using assms(2)
proof (induction projects arbitrary: acc s)
  case Nil
  then show ?case by simp
next
  case (Cons project projects)
  then obtain kvs where k: "project = JDict kvs" by auto
  from backup_project_returns [OF assms(1)] obtain project_info s1
    where b: "backup_project attr e (JDict kvs) s = (Inr project_info, s1)"
    by blast
  from Cons obtain infos s' where
    "backup_loop attr e projects (acc @ [project_info]) s1 = (Inr ((acc @ [project_info]) @ infos), s')"
    "length infos = length projects"
    by fastforce
  with k b show ?case
    by (intro exI [of _ "project_info # infos"] exI [of _ s']) simp
qed

end
